theory Spec2Isabelle
  imports Complex_Main
begin

section \<open>Numbers, vectors and the random source\<close>

text \<open>
  This development embeds the choreography core of \<^verbatim>\<open>src/index.tsx\<close>: the class
  \<^verbatim>\<open>Particle\<close>; the first loop of \<^verbatim>\<open>initContent\<close>, the methods \<^verbatim>\<open>addPhotoToScene\<close>,
  \<^verbatim>\<open>updateMode\<close> and \<^verbatim>\<open>animate\<close> and the handlers of the buttons and of a loaded photo
  of the class \<^verbatim>\<open>App\<close>; and the methods \<^verbatim>\<open>predictWebcam\<close> and \<^verbatim>\<open>processGestures\<close> of the
  class \<^verbatim>\<open>VisionManager\<close>. Rendering, audio and the page are left out.

  A JavaScript number is modelled as a real number: arithmetic is exact, and \<^verbatim>\<open>Math.cos\<close>,
  \<^verbatim>\<open>Math.sin\<close>, \<^verbatim>\<open>Math.acos\<close>, \<^verbatim>\<open>Math.hypot\<close>, \<^verbatim>\<open>Math.PI\<close> and \<^verbatim>\<open>Math.floor\<close> are the
  mathematical functions. Rounding of IEEE doubles is outside the model.

  \<^verbatim>\<open>Math.random()\<close> is modelled by state passing: the random source is the sequence of
  all results it is still going to return, a call returns the first one and leaves the
  rest. The implementation promises results in the half-open interval from 0 to 1,
  which is the predicate \<open>unitDraws\<close>.
\<close>

type_synonym rng = "nat \<Rightarrow> real"

definition random :: "rng \<Rightarrow> real \<times> rng" where
  "random g = (g 0, \<lambda>n. g (Suc n))"

definition unitDraws :: "rng \<Rightarrow> bool" where
  "unitDraws g = (\<forall>n. 0 \<le> g n \<and> g n < 1)"

text \<open>\<^verbatim>\<open>THREE.Vector3\<close> and \<^verbatim>\<open>THREE.Euler\<close> (the rotation order plays no role here).\<close>

record vec3 =
  vx :: real
  vy :: real
  vz :: real

record euler =
  ex :: real
  ey :: real
  ez :: real

text \<open>
  The methods of \<^verbatim>\<open>THREE.Vector3\<close> the source calls. \<^verbatim>\<open>v.lerp(t, alpha)\<close> of three.js is
  \<^verbatim>\<open>v.x += (t.x - v.x) * alpha\<close> on each component; \<^verbatim>\<open>v.length()\<close> is the Euclidean norm.
\<close>

definition lerp :: "vec3 \<Rightarrow> vec3 \<Rightarrow> real \<Rightarrow> vec3" where
  "lerp v t alpha =
     \<lparr>vx = vx v + (vx t - vx v) * alpha,
      vy = vy v + (vy t - vy v) * alpha,
      vz = vz v + (vz t - vz v) * alpha\<rparr>"

definition multiplyScalar :: "vec3 \<Rightarrow> real \<Rightarrow> vec3" where
  "multiplyScalar v s = \<lparr>vx = vx v * s, vy = vy v * s, vz = vz v * s\<rparr>"

definition vlength :: "vec3 \<Rightarrow> real" where
  "vlength v = sqrt ((vx v)\<^sup>2 + (vy v)\<^sup>2 + (vz v)\<^sup>2)"

definition distanceTo :: "vec3 \<Rightarrow> vec3 \<Rightarrow> real" where
  "distanceTo v w = sqrt ((vx v - vx w)\<^sup>2 + (vy v - vy w)\<^sup>2 + (vz v - vz w)\<^sup>2)"

text \<open>\<^verbatim>\<open>THREE.Object3D\<close>: the displayed transform of a mesh.\<close>

record object3d =
  position :: vec3
  rotation :: euler
  scale :: vec3

section \<open>The class Particle\<close>

record particle =
  mesh :: object3d
  type :: string
  baseScale :: vec3
  targetPos :: vec3
  targetRot :: euler
  targetScale :: vec3
  velocity :: vec3

text \<open>
  \<^verbatim>\<open>setScatterTarget\<close>: three draws (radius, theta, phi). It writes \<open>targetPos\<close> and
  \<open>targetScale\<close> and leaves \<open>targetRot\<close> alone.
\<close>

definition setScatterTarget :: "particle \<Rightarrow> rng \<Rightarrow> particle \<times> rng" where
  "setScatterTarget p g =
     (let (u1, g1) = random g;
          r = 8 + u1 * 12;
          (u2, g2) = random g1;
          theta = u2 * pi * 2;
          (u3, g3) = random g2;
          phi = arccos ((u3 * 2) - 1)
      in (p\<lparr>targetPos := \<lparr>vx = r * sin phi * cos theta,
                           vy = r * sin phi * sin theta,
                           vz = r * cos phi\<rparr>,
            targetScale := baseScale p\<rparr>, g3))"

text \<open>
  \<^verbatim>\<open>setTreeTarget(i, total)\<close>: four draws (jitter of x, jitter of z, two rotation angles).
  Both arguments are JavaScript numbers. Every caller passes a positive total \<open>tot\<close>; the
  quotient \<open>i / tot\<close> at \<open>tot = 0\<close> is not meaningful in this model.
\<close>

definition setTreeTarget :: "real \<Rightarrow> real \<Rightarrow> particle \<Rightarrow> rng \<Rightarrow> particle \<times> rng" where
  "setTreeTarget i tot p g =
     (let t = i / tot;
          angle = t * 50 * pi;
          maxRadius = 15;
          radius = maxRadius * (1 - t);
          height = t * 40 - 20;
          pos = \<lparr>vx = cos angle * radius, vy = height, vz = sin angle * radius\<rparr>;
          (u1, g1) = random g;
          pos = pos\<lparr>vx := vx pos + (u1 - 0.5)\<rparr>;
          (u2, g2) = random g1;
          pos = pos\<lparr>vz := vz pos + (u2 - 0.5)\<rparr>;
          (u3, g3) = random g2;
          (u4, g4) = random g3
      in (p\<lparr>targetPos := pos,
            targetRot := \<lparr>ex = u3 * pi, ey = u4 * pi, ez = 0\<rparr>,
            targetScale := baseScale p\<rparr>, g4))"

definition setFocusTarget :: "bool \<Rightarrow> particle \<Rightarrow> rng \<Rightarrow> particle \<times> rng" where
  "setFocusTarget isFocusItem p g =
     (if isFocusItem then
        (p\<lparr>targetPos := \<lparr>vx = 0, vy = 2, vz = 40\<rparr>,
           targetRot := \<lparr>ex = 0, ey = 0, ez = 0\<rparr>,
           targetScale := \<lparr>vx = 3, vy = 3, vz = 3\<rparr>\<rparr>, g)
      else
        (let (p1, g1) = setScatterTarget p g
         in (p1\<lparr>targetPos := multiplyScalar (targetPos p1) 2.0\<rparr>, g1)))"

text \<open>
  The constructor: three draws for the spin velocity, then \<^verbatim>\<open>setScatterTarget\<close>, then the
  mesh is put at the scatter target.
\<close>

definition newParticle :: "object3d \<Rightarrow> string \<Rightarrow> rng \<Rightarrow> particle \<times> rng" where
  "newParticle m ty g =
     (let (u1, g1) = random g;
          (u2, g2) = random g1;
          (u3, g3) = random g2;
          p = \<lparr>mesh = m, type = ty, baseScale = scale m,
               targetPos = \<lparr>vx = 0, vy = 0, vz = 0\<rparr>,
               targetRot = \<lparr>ex = 0, ey = 0, ez = 0\<rparr>,
               targetScale = \<lparr>vx = 0, vy = 0, vz = 0\<rparr>,
               velocity = \<lparr>vx = (u1 - 0.5) * 0.1, vy = (u2 - 0.5) * 0.1, vz = (u3 - 0.5) * 0.1\<rparr>\<rparr>;
          (p1, g4) = setScatterTarget p g3
      in (p1\<lparr>mesh := (mesh p1)\<lparr>position := targetPos p1\<rparr>\<rparr>, g4))"

text \<open>
  \<^verbatim>\<open>update(dt, time)\<close> reads the global \<^verbatim>\<open>STATE.mode\<close>, passed here as \<open>md\<close>; it uses
  neither of its two arguments.
\<close>

definition update :: "string \<Rightarrow> particle \<Rightarrow> particle" where
  "update md p =
     (let m1 = (mesh p)\<lparr>position := lerp (position (mesh p)) (targetPos p) 0.05\<rparr>;
          r = rotation m1;
          m2 = (if md = ''SCATTER'' then
                  m1\<lparr>rotation := r\<lparr>ex := ex r + vx (velocity p) * 2,
                                     ey := ey r + vy (velocity p) * 2\<rparr>\<rparr>
                else
                  m1\<lparr>rotation := \<lparr>ex = ex r + (ex (targetRot p) - ex r) * 0.05,
                                    ey = ey r + (ey (targetRot p) - ey r) * 0.05,
                                    ez = ez r + (ez (targetRot p) - ez r) * 0.05\<rparr>\<rparr>)
      in p\<lparr>mesh := m2\<lparr>scale := lerp (scale m2) (targetScale p) 0.05\<rparr>\<rparr>)"

section \<open>Global state\<close>

text \<open>
  The global \<^verbatim>\<open>STATE\<close>, the fields of \<^verbatim>\<open>App\<close> and \<^verbatim>\<open>VisionManager\<close> the core reads and
  writes, and the random source, in one record. A particle is a JavaScript object and
  \<^verbatim>\<open>p === STATE.focusTarget\<close> compares references; the array \<^verbatim>\<open>particles\<close> only ever grows
  at its end, so the reference to a particle is modelled as its index in that array.
  \<open>None\<close> stands for \<^verbatim>\<open>null\<close> and \<^verbatim>\<open>undefined\<close>, which are never \<^verbatim>\<open>===\<close> to a particle.
\<close>

record handData =
  detected :: bool
  centerX :: real
  centerY :: real

record world =
  mode :: string
  focusTarget :: "nat option"
  handData :: handData
  particles :: "particle list"
  mainGroupRotation :: euler
  isEnabled :: bool
  lastVideoTime :: real
  draws :: rng

definition particleCount :: nat where
  "particleCount = 1500"

definition dustCount :: nat where
  "dustCount = 2500"

text \<open>A fresh \<^verbatim>\<open>THREE.Mesh\<close>: at the origin, not rotated, of scale 1.\<close>

definition newMesh :: object3d where
  "newMesh = \<lparr>position = \<lparr>vx = 0, vy = 0, vz = 0\<rparr>,
              rotation = \<lparr>ex = 0, ey = 0, ez = 0\<rparr>,
              scale = \<lparr>vx = 1, vy = 1, vz = 1\<rparr>\<rparr>"

text \<open>
  \<^verbatim>\<open>particles.forEach((p, i) => ...)\<close> with a callback that mutates the element and draws
  random numbers: the elements are visited in order, \<open>i\<close> is the index of the first one.
\<close>

fun forEach :: "(nat \<Rightarrow> 'a \<Rightarrow> rng \<Rightarrow> 'a \<times> rng) \<Rightarrow> nat \<Rightarrow> 'a list \<Rightarrow> rng \<Rightarrow> 'a list \<times> rng" where
  "forEach f i [] g = ([], g)"
| "forEach f i (p # ps) g =
     (let (p1, g1) = f i p g;
          (ps1, g2) = forEach f (Suc i) ps g1
      in (p1 # ps1, g2))"

text \<open>
  \<^verbatim>\<open>particles.filter(p => p.type === 'PHOTO')\<close>, as the list of references (indices), and
  the read \<^verbatim>\<open>a[k]\<close> of an array at an integral number, \<^verbatim>\<open>undefined\<close> out of range.
\<close>

definition photosOf :: "particle list \<Rightarrow> nat list" where
  "photosOf ps = filter (\<lambda>i. type (ps ! i) = ''PHOTO'') [0..<length ps]"

definition arrayGet :: "'a list \<Rightarrow> int \<Rightarrow> 'a option" where
  "arrayGet xs k = (if 0 \<le> k \<and> k < int (length xs) then Some (xs ! nat k) else None)"

section \<open>The class App\<close>

text \<open>
  The first loop of \<^verbatim>\<open>initContent\<close>: its body for the index \<open>i\<close>, then the loop.
  Geometry and material are not modelled, but the draws that choose them are consumed:
  one for the kind of ornament, one for the material of a box or a sphere, one for the
  scale of a box.
\<close>

definition initOrnament :: "nat \<Rightarrow> rng \<Rightarrow> particle \<times> rng" where
  "initOrnament i g =
     (let (rand, g1) = random g;
          (m, g2) =
            (if rand < 0.1 then (newMesh, g1)
             else if rand < 0.4 then
               (let (u, ga) = random g1;
                    (s, gb) = random ga;
                    k = 0.8 + s * 0.5
                in (newMesh\<lparr>scale := \<lparr>vx = k, vy = k, vz = k\<rparr>\<rparr>, gb))
             else
               (let (u, ga) = random g1 in (newMesh, ga)));
          (p, g3) = newParticle m ''DECORATION'' g2
      in setTreeTarget (real i) (real particleCount) p g3)"

function initMainParticles :: "nat \<Rightarrow> particle list \<Rightarrow> rng \<Rightarrow> particle list \<times> rng" where
  "initMainParticles i ps g =
     (if i < particleCount then
        (let (p, g1) = initOrnament i g
         in initMainParticles (Suc i) (ps @ [p]) g1)
      else (ps, g))"
  by pat_completeness auto
termination
  by (relation "measure (\<lambda>(i, ps, g). particleCount - i)") auto

text \<open>
  The state once the constructor of \<^verbatim>\<open>App\<close> has run, from the random source \<open>g\<close>: the
  initial \<^verbatim>\<open>STATE\<close>, the particles of \<^verbatim>\<open>initContent\<close> (whose dust loop consumes three draws
  per dust point), a \<^verbatim>\<open>VisionManager\<close> that is not enabled.
\<close>

definition initialWorld :: "rng \<Rightarrow> world" where
  "initialWorld g =
     (let (ps, g1) = initMainParticles 0 [] g
      in \<lparr>mode = ''TREE'', focusTarget = None,
          handData = \<lparr>detected = False, centerX = 0.5, centerY = 0.5\<rparr>,
          particles = ps,
          mainGroupRotation = \<lparr>ex = 0, ey = 0, ez = 0\<rparr>,
          isEnabled = False, lastVideoTime = - 1,
          draws = (\<lambda>n. g1 (n + 3 * dustCount))\<rparr>)"

text \<open>\<^verbatim>\<open>addPhotoToScene(texture)\<close>; the texture only reaches the renderer.\<close>

definition addPhotoToScene :: "world \<Rightarrow> world" where
  "addPhotoToScene w =
     (let frame = newMesh;
          (p, g1) = newParticle frame ''PHOTO'' (draws w);
          (u, g2) = random g1;
          (p1, g3) = setTreeTarget (of_int \<lfloor>u * real particleCount\<rfloor>) (real particleCount) p g2
      in w\<lparr>particles := particles w @ [p1], draws := g3\<rparr>)"

text \<open>
  \<^verbatim>\<open>updateMode(mode)\<close>. The parameter is a \<^verbatim>\<open>string\<close>. The method calls itself once, with
  \<^verbatim>\<open>'TREE'\<close>, when \<^verbatim>\<open>'FOCUS'\<close> is asked for and there is no photo.
\<close>

function updateMode :: "string \<Rightarrow> world \<Rightarrow> world" where
  "updateMode md w =
     (if mode w = md then w
      else
        (let w1 = w\<lparr>mode := md\<rparr> in
         if md = ''TREE'' then
           (let (ps, g) = forEach (\<lambda>i p. setTreeTarget (real i) (real (length (particles w1))) p)
                            0 (particles w1) (draws w1)
            in w1\<lparr>particles := ps, draws := g\<rparr>)
         else if md = ''SCATTER'' then
           (let (ps, g) = forEach (\<lambda>i p. setScatterTarget p) 0 (particles w1) (draws w1)
            in w1\<lparr>particles := ps, draws := g\<rparr>)
         else if md = ''FOCUS'' then
           (let photos = photosOf (particles w1) in
            if length photos > 0 then
              (let (u, g) = random (draws w1);
                   w2 = w1\<lparr>focusTarget := arrayGet photos \<lfloor>u * real (length photos)\<rfloor>,
                           draws := g\<rparr>;
                   (ps, g1) = forEach (\<lambda>i p. setFocusTarget (focusTarget w2 = Some i) p)
                                0 (particles w2) (draws w2)
               in w2\<lparr>particles := ps, draws := g1\<rparr>)
            else updateMode ''TREE'' w1)
         else w1))"
  by pat_completeness auto
termination
  by (relation "measure (\<lambda>(md, w). if md = ''FOCUS'' then 1 else 0)") auto

text \<open>
  The particle loop and the rotation of the main group of \<^verbatim>\<open>animate(time)\<close>; the dust
  and the renderer are not modelled.
\<close>

definition animate :: "world \<Rightarrow> world" where
  "animate w =
     (let w1 = w\<lparr>particles := map (update (mode w)) (particles w)\<rparr>;
          r = mainGroupRotation w1
      in if mode w1 = ''FOCUS'' then
           w1\<lparr>mainGroupRotation := \<lparr>ex = ex r + (0 - ex r) * 0.1,
                                     ey = ey r + (0 - ey r) * 0.1,
                                     ez = ez r + (0 - ez r) * 0.1\<rparr>\<rparr>
         else if detected (handData w1) \<and> isEnabled w1 then
           (let targetRotY = (centerX (handData w1) - 0.5) * 4;
                targetRotX = (centerY (handData w1) - 0.5) * 2
            in w1\<lparr>mainGroupRotation := r\<lparr>ey := ey r + (targetRotY - ey r) * 0.1,
                                          ex := ex r + (targetRotX - ex r) * 0.1\<rparr>\<rparr>)
         else
           w1\<lparr>mainGroupRotation := r\<lparr>ey := ey r + 0.002, ex := ex r * 0.95\<rparr>\<rparr>)"

text \<open>The click handlers of the start and reset buttons (music and UI left out).\<close>

definition startClicked :: "world \<Rightarrow> world" where
  "startClicked w = updateMode ''TREE'' (w\<lparr>isEnabled := True\<rparr>)"

definition resetClicked :: "world \<Rightarrow> world" where
  "resetClicked w =
     (let w1 = w\<lparr>isEnabled := False, mainGroupRotation := \<lparr>ex = 0, ey = 0, ez = 0\<rparr>\<rparr>;
          w2 = updateMode ''TREE'' w1
      in w2\<lparr>focusTarget := None, handData := (handData w2)\<lparr>detected := False\<rparr>\<rparr>)"

text \<open>The callback of the texture loader in the file input's handler.\<close>

definition photoLoaded :: "world \<Rightarrow> world" where
  "photoLoaded w =
     (let w1 = addPhotoToScene w;
          w2 = updateMode ''FOCUS'' w1;
          photos = photosOf (particles w2);
          w3 = w2\<lparr>focusTarget := arrayGet photos (int (length photos) - 1)\<rparr>;
          (ps, g) = forEach (\<lambda>i p. setFocusTarget (focusTarget w3 = Some i) p)
                      0 (particles w3) (draws w3)
      in w3\<lparr>particles := ps, draws := g\<rparr>)"

section \<open>The class VisionManager\<close>

text \<open>
  A landmark is a point with \<^verbatim>\<open>x\<close> and \<^verbatim>\<open>y\<close>; a detection result holds, under
  \<^verbatim>\<open>landmarks\<close>, one list of landmarks per hand (or nothing). Reading \<^verbatim>\<open>lm[k].x\<close> past the
  end of \<^verbatim>\<open>lm\<close> throws a \<^verbatim>\<open>TypeError\<close>.
\<close>

record point =
  px :: real
  py :: real

record handLandmarkerResult =
  landmarks :: "point list list option"

datatype error = TypeError

definition hypot :: "real \<Rightarrow> real \<Rightarrow> real" where
  "hypot a b = sqrt (a\<^sup>2 + b\<^sup>2)"

text \<open>
  The classification inside \<^verbatim>\<open>processGestures\<close>, from the pinch test on: the mode the
  frame asks \<^verbatim>\<open>updateMode\<close> for, \<open>None\<close> when it calls nothing. The pinch test reads
  \<^verbatim>\<open>lm[4]\<close> and \<^verbatim>\<open>lm[8]\<close>, the loop over the tips reads up to \<^verbatim>\<open>lm[20]\<close>.
\<close>

definition gestureRequest :: "point list \<Rightarrow> error + string option" where
  "gestureRequest lm =
     (if length lm \<le> 8 then Inl TypeError
      else
        (let pinchDist = hypot (px (lm ! 4) - px (lm ! 8)) (py (lm ! 4) - py (lm ! 8)) in
         if pinchDist < 0.05 then Inr (Some ''FOCUS'')
         else if length lm \<le> 20 then Inl TypeError
         else
           (let tips = [8, 12, 16, 20];
                totalDist = fold (\<lambda>idx t. t + hypot (px (lm ! idx) - px (lm ! 0))
                                                    (py (lm ! idx) - py (lm ! 0))) tips 0;
                avgDist = totalDist / 4
            in if avgDist < 0.25 then Inr (Some ''TREE'')
               else if avgDist > 0.4 then Inr (Some ''SCATTER'')
               else Inr None)))"

text \<open>
  The two measures of a frame as the specification words them, to compare the code
  with: the Euclidean distance between the thumb tip (4) and the index tip (8), and the
  mean Euclidean distance from the four fingertips 8, 12, 16, 20 to the wrist (0).
\<close>

definition euclid :: "point \<Rightarrow> point \<Rightarrow> real" where
  "euclid p q = sqrt ((px p - px q)\<^sup>2 + (py p - py q)\<^sup>2)"

definition pinchDistance :: "point list \<Rightarrow> real" where
  "pinchDistance lm = euclid (lm ! 4) (lm ! 8)"

definition openness :: "point list \<Rightarrow> real" where
  "openness lm =
     (euclid (lm ! 8) (lm ! 0) + euclid (lm ! 12) (lm ! 0) +
      euclid (lm ! 16) (lm ! 0) + euclid (lm ! 20) (lm ! 0)) / 4"

text \<open>
  \<^verbatim>\<open>processGestures(result)\<close>. An exception leaves the state as it was when thrown, which
  the error value carries.
\<close>

definition processGestures :: "handLandmarkerResult \<Rightarrow> world \<Rightarrow> (error \<times> world) + world" where
  "processGestures result w =
     (case landmarks result of
        Some (lm # rest) \<Rightarrow>
          (let w1 = w\<lparr>handData := (handData w)\<lparr>detected := True\<rparr>\<rparr> in
           if length lm \<le> 9 then Inl (TypeError, w1)
           else
             (let w2 = w1\<lparr>handData := (handData w1)\<lparr>centerX := 1 - px (lm ! 9),
                                                     centerY := py (lm ! 9)\<rparr>\<rparr>
              in case gestureRequest lm of
                   Inl e \<Rightarrow> Inl (e, w2)
                 | Inr (Some md) \<Rightarrow> Inr (updateMode md w2)
                 | Inr None \<Rightarrow> Inr w2))
      | _ \<Rightarrow> Inr (w\<lparr>handData := (handData w)\<lparr>detected := False\<rparr>\<rparr>))"

text \<open>
  \<^verbatim>\<open>predictWebcam()\<close>, one run of the callback: \<open>currentTime\<close> is \<^verbatim>\<open>video.currentTime\<close>, and
  \<open>detection\<close> is what \<^verbatim>\<open>landmarker.detectForVideo\<close> returns for the frame, \<open>None\<close> when
  there is no landmarker.
\<close>

definition predictWebcam ::
  "real \<Rightarrow> handLandmarkerResult option \<Rightarrow> world \<Rightarrow> (error \<times> world) + world" where
  "predictWebcam currentTime detection w =
     (if \<not> isEnabled w then Inr (w\<lparr>handData := (handData w)\<lparr>detected := False\<rparr>\<rparr>)
      else if currentTime \<noteq> lastVideoTime w then
        (let w1 = w\<lparr>lastVideoTime := currentTime\<rparr> in
         case detection of
           Some result \<Rightarrow> processGestures result w1
         | None \<Rightarrow> Inr w1)
      else Inr w)"

section \<open>The states the program reaches\<close>

text \<open>
  The program starts in \<open>initialWorld\<close> and then runs its callbacks one at a time (the
  host is single-threaded): the two buttons, a loaded photo, an animation frame, a
  webcam frame that returns or throws. Every call of \<open>updateMode\<close> and of
  \<open>addPhotoToScene\<close> in the source is inside one of them; the last two rules add the
  states a caller reaches by calling these two public methods directly, with any
  argument.
\<close>

inductive reachable :: "world \<Rightarrow> bool" where
  constructed: "reachable (initialWorld g)"
| start: "reachable w \<Longrightarrow> reachable (startClicked w)"
| reset: "reachable w \<Longrightarrow> reachable (resetClicked w)"
| photo: "reachable w \<Longrightarrow> reachable (photoLoaded w)"
| frame: "reachable w \<Longrightarrow> reachable (animate w)"
| webcam: "reachable w \<Longrightarrow> predictWebcam t d w = Inr w1 \<Longrightarrow> reachable w1"
| webcamThrows: "reachable w \<Longrightarrow> predictWebcam t d w = Inl (e, w1) \<Longrightarrow> reachable w1"
| modeSet: "reachable w \<Longrightarrow> reachable (updateMode md w)"
| photoAdded: "reachable w \<Longrightarrow> reachable (addPhotoToScene w)"

text \<open>
  What every reachable state satisfies: a focus target is stored, or the mode is
  \<^verbatim>\<open>'FOCUS'\<close>, only if there is a photo.
\<close>

definition photoInvariant :: "world \<Rightarrow> bool" where
  "photoInvariant w =
     (photosOf (particles w) = [] \<longrightarrow> focusTarget w = None \<and> mode w \<noteq> ''FOCUS'')"

section \<open>Concrete inputs\<close>

text \<open>
  A random source that always returns one half, and the ornament the constructor makes
  of a fresh mesh from it.
\<close>

definition halfDraws :: rng where
  "halfDraws = (\<lambda>n. 1 / 2)"

definition sampleOrnament :: particle where
  "sampleOrnament = fst (newParticle newMesh ''DECORATION'' halfDraws)"


text \<open>A frame of 21 landmarks that all sit at the centre of the image: a pinch.\<close>

definition pinchFrame :: "point list" where
  "pinchFrame = replicate 21 \<lparr>px = 1 / 2, py = 1 / 2\<rparr>"

text \<open>
  A fist: the thumb tip away from the index tip, the four fingertips 0.2 from the wrist.
\<close>

definition fistFrame :: "point list" where
  "fistFrame = (replicate 21 \<lparr>px = 1 / 2, py = 1 / 2\<rparr>)
     [4 := \<lparr>px = 1 / 2, py = 9 / 10\<rparr>,
      8 := \<lparr>px = 1 / 2, py = 7 / 10\<rparr>,
      12 := \<lparr>px = 1 / 2, py = 7 / 10\<rparr>,
      16 := \<lparr>px = 1 / 2, py = 7 / 10\<rparr>,
      20 := \<lparr>px = 1 / 2, py = 7 / 10\<rparr>]"

text \<open>An open hand: the four fingertips 0.45 from the wrist.\<close>

definition openFrame :: "point list" where
  "openFrame = (replicate 21 \<lparr>px = 1 / 2, py = 1 / 2\<rparr>)
     [8 := \<lparr>px = 1 / 2, py = 19 / 20\<rparr>,
      12 := \<lparr>px = 1 / 2, py = 19 / 20\<rparr>,
      16 := \<lparr>px = 1 / 2, py = 19 / 20\<rparr>,
      20 := \<lparr>px = 1 / 2, py = 19 / 20\<rparr>]"

text \<open>
  The state after the start button and one webcam frame showing the open hand, from the
  initial state with the constant random source: the mode is \<^verbatim>\<open>'SCATTER'\<close>.
\<close>

definition scatterWorld :: world where
  "scatterWorld =
     updateMode ''SCATTER''
       ((initialWorld halfDraws)\<lparr>isEnabled := True, lastVideoTime := 0,
          handData := \<lparr>detected = True, centerX = 1 / 2, centerY = 1 / 2\<rparr>\<rparr>)"

text \<open>The state after a photo is added in the initial state.\<close>

definition onePhotoWorld :: world where
  "onePhotoWorld = addPhotoToScene (initialWorld halfDraws)"

section \<open>Particle.update\<close>

lemma update_targetPos: "targetPos (update md p) = targetPos p"
  by (simp add: update_def Let_def)

lemma update_position:
  "position (mesh (update md p)) = lerp (position (mesh p)) (targetPos p) 0.05"
  by (simp add: update_def Let_def)

lemma distanceTo_lerp:
  "distanceTo (lerp v t a) t = \<bar>1 - a\<bar> * distanceTo v t"
proof -
  have c: "\<And>x y::real. (x + (y - x) * a - y)\<^sup>2 = (1 - a)\<^sup>2 * (x - y)\<^sup>2"
    by (simp add: power2_eq_square algebra_simps)
  have "(vx (lerp v t a) - vx t)\<^sup>2 + (vy (lerp v t a) - vy t)\<^sup>2 + (vz (lerp v t a) - vz t)\<^sup>2
      = (1 - a)\<^sup>2 * ((vx v - vx t)\<^sup>2 + (vy v - vy t)\<^sup>2 + (vz v - vz t)\<^sup>2)"
    by (simp add: lerp_def c distrib_left)
  then show ?thesis
    by (simp add: distanceTo_def real_sqrt_mult)
qed

lemma distanceTo_nonneg: "0 \<le> distanceTo v w"
  by (simp add: distanceTo_def)

lemma fold_update_targetPos: "targetPos (fold update ms p) = targetPos p"
  by (induction ms arbitrary: p) (simp_all add: update_targetPos)

lemma fold_update_distance:
  "distanceTo (position (mesh (fold update ms p))) (targetPos p)
     = 0.95 ^ length ms * distanceTo (position (mesh p)) (targetPos p)"
proof (induction ms arbitrary: p)
  case Nil
  show ?case by simp
next
  case (Cons m ms)
  have "distanceTo (position (mesh (fold update ms (update m p)))) (targetPos (update m p))
        = 0.95 ^ length ms * distanceTo (position (mesh (update m p))) (targetPos (update m p))"
    by (rule Cons.IH)
  then show ?case
    by (simp add: update_targetPos update_position distanceTo_lerp)
qed

lemma setTreeTarget_height:
  "vy (targetPos (fst (setTreeTarget i tot p g))) = 40 * (i / tot) - 20"
  by (simp add: setTreeTarget_def Let_def random_def)

lemma setTreeTarget_x:
  "vx (targetPos (fst (setTreeTarget i tot p g)))
     = cos (i / tot * 50 * pi) * (15 * (1 - i / tot)) + (g 0 - 0.5)"
  by (simp add: setTreeTarget_def Let_def random_def)

lemma setTreeTarget_z:
  "vz (targetPos (fst (setTreeTarget i tot p g)))
     = sin (i / tot * 50 * pi) * (15 * (1 - i / tot)) + (g 1 - 0.5)"
  by (simp add: setTreeTarget_def Let_def random_def)

section \<open>Array loops and mode changes, case by case\<close>

declare updateMode.simps [simp del]

lemma updateMode_same: "mode w = md \<Longrightarrow> updateMode md w = w"
  by (simp add: updateMode.simps)

lemma updateMode_TREE:
  "mode w \<noteq> ''TREE'' \<Longrightarrow>
   updateMode ''TREE'' w =
     w\<lparr>mode := ''TREE'',
       particles := fst (forEach (\<lambda>i p. setTreeTarget (real i) (real (length (particles w))) p)
                           0 (particles w) (draws w)),
       draws := snd (forEach (\<lambda>i p. setTreeTarget (real i) (real (length (particles w))) p)
                       0 (particles w) (draws w))\<rparr>"
  by (subst updateMode.simps) (simp add: Let_def split_beta)

lemma updateMode_SCATTER:
  "mode w \<noteq> ''SCATTER'' \<Longrightarrow>
   updateMode ''SCATTER'' w =
     w\<lparr>mode := ''SCATTER'',
       particles := fst (forEach (\<lambda>i p. setScatterTarget p) 0 (particles w) (draws w)),
       draws := snd (forEach (\<lambda>i p. setScatterTarget p) 0 (particles w) (draws w))\<rparr>"
  by (subst updateMode.simps) (simp add: Let_def split_beta)

lemma updateMode_FOCUS_photos:
  "mode w \<noteq> ''FOCUS'' \<Longrightarrow> photosOf (particles w) \<noteq> [] \<Longrightarrow>
   updateMode ''FOCUS'' w =
     (let ft = arrayGet (photosOf (particles w))
                 \<lfloor>draws w 0 * real (length (photosOf (particles w)))\<rfloor>;
          r = forEach (\<lambda>i p. setFocusTarget (ft = Some i) p) 0 (particles w)
                (\<lambda>n. draws w (Suc n))
      in w\<lparr>mode := ''FOCUS'', focusTarget := ft, particles := fst r, draws := snd r\<rparr>)"
  by (subst updateMode.simps) (simp add: Let_def split_beta random_def)

lemma updateMode_FOCUS_none:
  "mode w \<noteq> ''FOCUS'' \<Longrightarrow> photosOf (particles w) = [] \<Longrightarrow>
   updateMode ''FOCUS'' w = updateMode ''TREE'' (w\<lparr>mode := ''FOCUS''\<rparr>)"
  by (subst updateMode.simps) (simp add: Let_def)

lemma updateMode_other:
  "md \<noteq> ''TREE'' \<Longrightarrow> md \<noteq> ''SCATTER'' \<Longrightarrow> md \<noteq> ''FOCUS'' \<Longrightarrow>
   updateMode md w = w\<lparr>mode := md\<rparr>"
  by (subst updateMode.simps) (simp add: Let_def)

lemma forEach_length: "length (fst (forEach f i xs g)) = length xs"
  by (induction xs arbitrary: i g) (simp_all add: split_beta Let_def)

lemma forEach_map:
  assumes "\<And>i p g. sel (fst (f i p g)) = sel p"
  shows "map sel (fst (forEach f i xs g)) = map sel xs"
  by (induction xs arbitrary: i g) (simp_all add: split_beta Let_def assms)

lemma forEach_nth:
  assumes "\<And>i p g. P g \<Longrightarrow> P (snd (f i p g))" and "P g" and "j < length xs"
  shows "\<exists>h. P h \<and> fst (forEach f i xs g) ! j = fst (f (i + j) (xs ! j) h)"
  using assms(2,3)
proof (induction xs arbitrary: i g j)
  case Nil
  then show ?case by simp
next
  case (Cons x xs)
  show ?case
  proof (cases j)
    case 0
    with Cons.prems show ?thesis by (auto simp: split_beta Let_def)
  next
    case (Suc k)
    have "P (snd (f i x g))" using Cons.prems(1) by (rule assms(1))
    moreover have "k < length xs" using Cons.prems(2) Suc by simp
    ultimately obtain h where "P h"
      and "fst (forEach f (Suc i) xs (snd (f i x g))) ! k = fst (f (Suc i + k) (xs ! k) h)"
      using Cons.IH by blast
    with Suc show ?thesis by (auto simp: split_beta Let_def)
  qed
qed

section \<open>Photos and the invariant of the reachable states\<close>

lemma setTreeTarget_type: "type (fst (setTreeTarget i tot p g)) = type p"
  by (simp add: setTreeTarget_def Let_def split_beta)

lemma setScatterTarget_type: "type (fst (setScatterTarget p g)) = type p"
  by (simp add: setScatterTarget_def Let_def split_beta)

lemma setFocusTarget_type: "type (fst (setFocusTarget b p g)) = type p"
  by (simp add: setFocusTarget_def Let_def split_beta setScatterTarget_type)

lemma newParticle_type: "type (fst (newParticle m ty g)) = ty"
  by (simp add: newParticle_def Let_def split_beta setScatterTarget_type)

lemma update_type: "type (update md p) = type p"
  by (simp add: update_def Let_def)

lemma photosOf_cong:
  assumes "map type ps = map type qs"
  shows "photosOf ps = photosOf qs"
proof -
  have len: "length ps = length qs"
    using assms by (rule map_eq_imp_length_eq)
  have "\<And>i. i < length ps \<Longrightarrow> type (ps ! i) = type (qs ! i)"
  proof -
    fix i assume "i < length ps"
    then have "map type ps ! i = type (ps ! i)" and "map type qs ! i = type (qs ! i)"
      using len by simp_all
    with assms show "type (ps ! i) = type (qs ! i)" by simp
  qed
  then have "filter (\<lambda>i. type (ps ! i) = ''PHOTO'') [0..<length ps]
           = filter (\<lambda>i. type (qs ! i) = ''PHOTO'') [0..<length ps]"
    by (intro filter_cong) simp_all
  then show ?thesis by (simp add: photosOf_def len)
qed

lemma photosOf_snoc: "type p = ''PHOTO'' \<Longrightarrow> photosOf (ps @ [p]) \<noteq> []"
proof -
  assume "type p = ''PHOTO''"
  then have "length ps \<in> set (photosOf (ps @ [p]))"
    by (simp add: photosOf_def)
  then show ?thesis by auto
qed

lemma updateMode_types: "map type (particles (updateMode md w)) = map type (particles w)"
proof (cases "mode w = md")
  case True
  then show ?thesis by (simp add: updateMode_same)
next
  case differs: False
  consider (tree) "md = ''TREE''" | (scatter) "md = ''SCATTER''"
    | (focus) "md = ''FOCUS''" "photosOf (particles w) \<noteq> []"
    | (fallback) "md = ''FOCUS''" "photosOf (particles w) = []"
    | (other) "md \<noteq> ''TREE''" "md \<noteq> ''SCATTER''" "md \<noteq> ''FOCUS''"
    by blast
  then show ?thesis
  proof cases
    case tree
    with differs show ?thesis
      by (simp add: updateMode_TREE forEach_map setTreeTarget_type)
  next
    case scatter
    with differs show ?thesis
      by (simp add: updateMode_SCATTER forEach_map setScatterTarget_type)
  next
    case focus
    with differs show ?thesis
      by (simp add: updateMode_FOCUS_photos Let_def forEach_map setFocusTarget_type)
  next
    case fallback
    with differs show ?thesis
      by (simp add: updateMode_FOCUS_none updateMode_TREE forEach_map setTreeTarget_type)
  next
    case other
    then show ?thesis by (simp add: updateMode_other)
  qed
qed

lemma updateMode_photosOf: "photosOf (particles (updateMode md w)) = photosOf (particles w)"
  by (rule photosOf_cong) (rule updateMode_types)

lemma updateMode_fallback:
  assumes "mode w \<noteq> ''FOCUS''" and "photosOf (particles w) = []"
  shows "updateMode ''FOCUS'' w =
     w\<lparr>mode := ''TREE'',
       particles := fst (forEach (\<lambda>i p. setTreeTarget (real i) (real (length (particles w))) p)
                           0 (particles w) (draws w)),
       draws := snd (forEach (\<lambda>i p. setTreeTarget (real i) (real (length (particles w))) p)
                       0 (particles w) (draws w))\<rparr>"
  using assms by (simp add: updateMode_FOCUS_none updateMode_TREE)

lemma updateMode_invariant:
  assumes "photoInvariant w"
  shows "photoInvariant (updateMode md w)"
proof (cases "photosOf (particles w) = []")
  case False
  then show ?thesis by (simp add: photoInvariant_def updateMode_photosOf)
next
  case none: True
  with assms have ft: "focusTarget w = None" and m: "mode w \<noteq> ''FOCUS''"
    by (simp_all add: photoInvariant_def)
  show ?thesis
  proof (cases "mode w = md")
    case True
    with assms show ?thesis by (simp add: updateMode_same)
  next
    case differs: False
    consider (tree) "md = ''TREE''" | (scatter) "md = ''SCATTER''" | (focus) "md = ''FOCUS''"
      | (other) "md \<noteq> ''TREE''" "md \<noteq> ''SCATTER''" "md \<noteq> ''FOCUS''"
      by blast
    then show ?thesis
    proof cases
      case tree
      with differs ft show ?thesis by (simp add: photoInvariant_def updateMode_TREE)
    next
      case scatter
      with differs ft show ?thesis by (simp add: photoInvariant_def updateMode_SCATTER)
    next
      case focus
      with m none ft show ?thesis by (simp add: photoInvariant_def updateMode_fallback)
    next
      case other
      with ft show ?thesis by (simp add: photoInvariant_def updateMode_other)
    qed
  qed
qed

declare initMainParticles.simps [simp del]

lemma initOrnament_type: "type (fst (initOrnament i g)) = ''DECORATION''"
  by (simp add: initOrnament_def Let_def split_beta setTreeTarget_type newParticle_type)

lemma initMainParticles_types:
  "\<forall>p \<in> set ps. type p = ''DECORATION'' \<Longrightarrow>
   \<forall>p \<in> set (fst (initMainParticles i ps g)). type p = ''DECORATION''"
proof (induction i ps g rule: initMainParticles.induct)
  case (1 i ps g)
  show ?case
  proof (cases "i < particleCount")
    case False
    with "1.prems" show ?thesis by (subst initMainParticles.simps) simp
  next
    case True
    have "\<forall>p \<in> set (ps @ [fst (initOrnament i g)]). type p = ''DECORATION''"
      using "1.prems" by (simp add: initOrnament_type)
    then have "\<forall>p \<in> set (fst (initMainParticles (Suc i) (ps @ [fst (initOrnament i g)])
                                  (snd (initOrnament i g)))). type p = ''DECORATION''"
      by (rule "1.IH" [OF True refl prod.collapse])
    with True show ?thesis
      by (subst initMainParticles.simps) (simp add: split_beta)
  qed
qed

lemma initMainParticles_length:
  "length (fst (initMainParticles i ps g)) = length ps + (particleCount - i)"
proof (induction i ps g rule: initMainParticles.induct)
  case (1 i ps g)
  show ?case
  proof (cases "i < particleCount")
    case False
    then show ?thesis by (subst initMainParticles.simps) simp
  next
    case True
    have "length (fst (initMainParticles (Suc i) (ps @ [fst (initOrnament i g)])
                                  (snd (initOrnament i g))))
          = length (ps @ [fst (initOrnament i g)]) + (particleCount - Suc i)"
      by (rule "1.IH" [OF True refl prod.collapse])
    with True show ?thesis
      by (subst initMainParticles.simps) (simp add: split_beta)
  qed
qed

lemma photosOf_none: "\<forall>p \<in> set ps. type p \<noteq> ''PHOTO'' \<Longrightarrow> photosOf ps = []"
  by (simp add: photosOf_def filter_empty_conv)

lemma initialWorld_photos: "photosOf (particles (initialWorld g)) = []"
proof -
  have "\<forall>p \<in> set (fst (initMainParticles 0 [] g)). type p = ''DECORATION''"
    by (rule initMainParticles_types) simp
  then have "photosOf (fst (initMainParticles 0 [] g)) = []"
    by (intro photosOf_none) auto
  then show ?thesis by (simp add: initialWorld_def split_beta)
qed

lemma initialWorld_length: "length (particles (initialWorld g)) = particleCount"
  by (simp add: initialWorld_def split_beta initMainParticles_length)

lemma initialWorld_mode: "mode (initialWorld g) = ''TREE''"
  by (simp add: initialWorld_def split_beta)

lemma initialWorld_focusTarget: "focusTarget (initialWorld g) = None"
  by (simp add: initialWorld_def split_beta)

lemma initialWorld_isEnabled: "\<not> isEnabled (initialWorld g)"
  by (simp add: initialWorld_def split_beta)

lemma initialWorld_invariant: "photoInvariant (initialWorld g)"
  by (simp add: photoInvariant_def initialWorld_mode initialWorld_focusTarget)

lemma addPhotoToScene_photos: "photosOf (particles (addPhotoToScene w)) \<noteq> []"
  by (simp add: addPhotoToScene_def Let_def split_beta photosOf_snoc
      setTreeTarget_type newParticle_type)

lemma photoLoaded_photos: "photosOf (particles (photoLoaded w)) \<noteq> []"
proof -
  have "map type (particles (photoLoaded w)) = map type (particles (addPhotoToScene w))"
    by (simp add: photoLoaded_def Let_def split_beta forEach_map setFocusTarget_type
        updateMode_types)
  then have "photosOf (particles (photoLoaded w)) = photosOf (particles (addPhotoToScene w))"
    by (rule photosOf_cong)
  then show ?thesis by (simp add: addPhotoToScene_photos)
qed

lemma animate_invariant: "photoInvariant w \<Longrightarrow> photoInvariant (animate w)"
proof -
  assume inv: "photoInvariant w"
  have "map type (particles (animate w)) = map type (particles w)"
    by (simp add: animate_def Let_def update_type)
  then have ph: "photosOf (particles (animate w)) = photosOf (particles w)"
    by (rule photosOf_cong)
  have "focusTarget (animate w) = focusTarget w" and "mode (animate w) = mode w"
    by (simp_all add: animate_def Let_def)
  with inv ph show ?thesis by (simp add: photoInvariant_def)
qed

lemma photoInvariant_handData [simp]: "photoInvariant (w\<lparr>handData := h\<rparr>) = photoInvariant w"
  by (simp add: photoInvariant_def)

lemma photoInvariant_lastVideoTime [simp]:
  "photoInvariant (w\<lparr>lastVideoTime := t\<rparr>) = photoInvariant w"
  by (simp add: photoInvariant_def)

lemma photoInvariant_isEnabled [simp]: "photoInvariant (w\<lparr>isEnabled := b\<rparr>) = photoInvariant w"
  by (simp add: photoInvariant_def)

lemma photoInvariant_mainGroupRotation [simp]:
  "photoInvariant (w\<lparr>mainGroupRotation := r\<rparr>) = photoInvariant w"
  by (simp add: photoInvariant_def)

lemma processGestures_invariant:
  assumes "photoInvariant w"
  shows "(processGestures r w = Inr w1 \<longrightarrow> photoInvariant w1) \<and>
         (processGestures r w = Inl (e, w1) \<longrightarrow> photoInvariant w1)"
  using assms
  by (auto simp: processGestures_def Let_def updateMode_invariant
      split: option.splits list.splits sum.splits if_splits)

lemma predictWebcam_invariant:
  assumes "photoInvariant w"
  shows "(predictWebcam t d w = Inr w1 \<longrightarrow> photoInvariant w1) \<and>
         (predictWebcam t d w = Inl (e, w1) \<longrightarrow> photoInvariant w1)"
proof -
  have "photoInvariant (w\<lparr>lastVideoTime := t\<rparr>)" using assms by simp
  note pg = processGestures_invariant [OF this]
  show ?thesis
    using assms pg
    by (auto simp: predictWebcam_def Let_def split: option.splits if_splits)
qed

lemma reachable_invariant: "reachable w \<Longrightarrow> photoInvariant w"
proof (induction rule: reachable.induct)
  case (constructed g)
  show ?case by (rule initialWorld_invariant)
next
  case (start w)
  then show ?case by (simp add: startClicked_def updateMode_invariant)
next
  case (reset w)
  have "photoInvariant (updateMode ''TREE'' (w\<lparr>isEnabled := False,
          mainGroupRotation := \<lparr>ex = 0, ey = 0, ez = 0\<rparr>\<rparr>))"
    using reset.IH by (intro updateMode_invariant) simp
  then show ?case
    by (simp add: resetClicked_def Let_def photoInvariant_def updateMode_photosOf)
next
  case (photo w)
  show ?case using photoLoaded_photos by (simp add: photoInvariant_def)
next
  case (frame w)
  from frame.IH show ?case by (rule animate_invariant)
next
  case (webcam w t d w1)
  then show ?case using predictWebcam_invariant by blast
next
  case (webcamThrows w t d e w1)
  then show ?case using predictWebcam_invariant by blast
next
  case (modeSet w md)
  from modeSet.IH show ?case by (rule updateMode_invariant)
next
  case (photoAdded w)
  show ?case using addPhotoToScene_photos by (simp add: photoInvariant_def)
qed

section \<open>Mode changes\<close>


section \<open>How many draws the layouts consume\<close>

lemma setScatterTarget_draws: "snd (setScatterTarget p g) n = g (n + 3)"
  by (simp add: setScatterTarget_def Let_def split_beta random_def eval_nat_numeral)

lemma setTreeTarget_draws: "snd (setTreeTarget i tot p g) n = g (n + 4)"
  by (simp add: setTreeTarget_def Let_def split_beta random_def eval_nat_numeral)

lemma newParticle_draws: "snd (newParticle m ty g) n = g (n + 6)"
  by (simp add: newParticle_def Let_def split_beta random_def setScatterTarget_draws
      eval_nat_numeral)



lemma initOrnament_draws: "\<exists>k. \<forall>n. snd (initOrnament i g) n = g (n + k)"
proof -
  consider (cane) "g 0 < 0.1" | (box) "\<not> g 0 < 0.1" "g 0 < 0.4" | (ball) "\<not> g 0 < 0.1" "\<not> g 0 < 0.4"
    by blast
  then show ?thesis
  proof cases
    case cane
    then have "\<forall>n. snd (initOrnament i g) n = g (n + 11)"
      by (simp add: initOrnament_def Let_def split_beta random_def setTreeTarget_draws
          newParticle_draws eval_nat_numeral)
    then show ?thesis by blast
  next
    case box
    then have "\<forall>n. snd (initOrnament i g) n = g (n + 13)"
      by (simp add: initOrnament_def Let_def split_beta random_def setTreeTarget_draws
          newParticle_draws eval_nat_numeral)
    then show ?thesis by blast
  next
    case ball
    then have "\<forall>n. snd (initOrnament i g) n = g (n + 12)"
      by (simp add: initOrnament_def Let_def split_beta random_def setTreeTarget_draws
          newParticle_draws eval_nat_numeral)
    then show ?thesis by blast
  qed
qed

lemma initMainParticles_draws: "\<exists>k. \<forall>n. snd (initMainParticles i ps g) n = g (n + k)"
proof (induction i ps g rule: initMainParticles.induct)
  case (1 i ps g)
  show ?case
  proof (cases "i < particleCount")
    case False
    then have "\<forall>n. snd (initMainParticles i ps g) n = g (n + 0)"
      by (subst initMainParticles.simps) simp
    then show ?thesis by blast
  next
    case True
    obtain a where a: "\<forall>n. snd (initOrnament i g) n = g (n + a)"
      using initOrnament_draws by blast
    obtain b where "\<forall>n. snd (initMainParticles (Suc i) (ps @ [fst (initOrnament i g)])
                      (snd (initOrnament i g))) n = snd (initOrnament i g) (n + b)"
      using "1.IH" [OF True refl prod.collapse] by blast
    with a True have "\<forall>n. snd (initMainParticles i ps g) n = g (n + (b + a))"
      by (subst initMainParticles.simps) (simp add: split_beta add.assoc)
    then show ?thesis by blast
  qed
qed

lemma initialWorld_draws: "\<exists>k. \<forall>n. draws (initialWorld g) n = g (n + k)"
proof -
  obtain a where "\<forall>n. snd (initMainParticles 0 [] g) n = g (n + a)"
    using initMainParticles_draws by blast
  then have "\<forall>n. draws (initialWorld g) n = g (n + (3 * dustCount + a))"
    by (simp add: initialWorld_def split_beta add.assoc)
  then show ?thesis by blast
qed



section \<open>The focus layout\<close>

lemma unitDraws_setScatterTarget: "unitDraws g \<Longrightarrow> unitDraws (snd (setScatterTarget p g))"
  by (simp add: unitDraws_def setScatterTarget_draws)

lemma unitDraws_setFocusTarget: "unitDraws g \<Longrightarrow> unitDraws (snd (setFocusTarget b p g))"
  by (simp add: setFocusTarget_def split_beta Let_def unitDraws_setScatterTarget)

lemma setScatterTarget_length:
  assumes "0 \<le> g 0"
  shows "vlength (targetPos (fst (setScatterTarget p g))) = 8 + g 0 * 12"
proof -
  define r where "r = 8 + g 0 * 12"
  define theta where "theta = g 1 * pi * 2"
  define phi where "phi = arccos (g 2 * 2 - 1)"
  have r0: "0 \<le> r" using assms by (simp add: r_def)
  have pos: "targetPos (fst (setScatterTarget p g))
      = \<lparr>vx = r * sin phi * cos theta, vy = r * sin phi * sin theta, vz = r * cos phi\<rparr>"
    by (simp add: setScatterTarget_def Let_def split_beta random_def r_def theta_def phi_def
        eval_nat_numeral)
  have "(r * sin phi * cos theta)\<^sup>2 + (r * sin phi * sin theta)\<^sup>2 + (r * cos phi)\<^sup>2
      = r\<^sup>2 * ((sin phi)\<^sup>2 * ((cos theta)\<^sup>2 + (sin theta)\<^sup>2) + (cos phi)\<^sup>2)"
    by (simp only: power_mult_distrib distrib_left mult.assoc)
  also have "\<dots> = r\<^sup>2"
    by (simp only: sin_cos_squared_add sin_cos_squared_add2 mult_1_right)
  finally have "vlength (targetPos (fst (setScatterTarget p g))) = sqrt (r\<^sup>2)"
    by (simp add: pos vlength_def)
  with r0 show ?thesis by (simp add: r_def)
qed

lemma vlength_multiplyScalar: "0 \<le> s \<Longrightarrow> vlength (multiplyScalar v s) = s * vlength v"
proof -
  assume s: "0 \<le> s"
  have "(vx v * s)\<^sup>2 + (vy v * s)\<^sup>2 + (vz v * s)\<^sup>2 = s\<^sup>2 * ((vx v)\<^sup>2 + (vy v)\<^sup>2 + (vz v)\<^sup>2)"
    by (simp add: power_mult_distrib algebra_simps)
  then show ?thesis
    using s by (simp add: vlength_def multiplyScalar_def real_sqrt_mult)
qed

lemma setFocusTarget_subject:
  "targetPos (fst (setFocusTarget True p g)) = \<lparr>vx = 0, vy = 2, vz = 40\<rparr> \<and>
   targetRot (fst (setFocusTarget True p g)) = \<lparr>ex = 0, ey = 0, ez = 0\<rparr> \<and>
   targetScale (fst (setFocusTarget True p g)) = \<lparr>vx = 3, vy = 3, vz = 3\<rparr>"
  by (simp add: setFocusTarget_def)

lemma setFocusTarget_other:
  "targetPos (fst (setFocusTarget False p g))
     = multiplyScalar (targetPos (fst (setScatterTarget p g))) 2"
  by (simp add: setFocusTarget_def split_beta Let_def)

lemma setFocusTarget_other_length:
  assumes "unitDraws g"
  shows "16 \<le> vlength (targetPos (fst (setFocusTarget False p g)))"
    and "vlength (targetPos (fst (setFocusTarget False p g))) \<le> 40"
proof -
  have g0: "0 \<le> g 0" "g 0 < 1" using assms by (simp_all add: unitDraws_def)
  have "vlength (targetPos (fst (setFocusTarget False p g))) = 2 * (8 + g 0 * 12)"
    by (simp add: setFocusTarget_other vlength_multiplyScalar setScatterTarget_length g0(1))
  with g0 show "16 \<le> vlength (targetPos (fst (setFocusTarget False p g)))"
    and "vlength (targetPos (fst (setFocusTarget False p g))) \<le> 40"
    by simp_all
qed

lemma photosOf_member:
  "k \<in> set (photosOf ps) \<Longrightarrow> k < length ps \<and> type (ps ! k) = ''PHOTO''"
  by (simp add: photosOf_def)

lemma arrayGet_random:
  assumes "xs \<noteq> []" and "0 \<le> u" and "u < 1"
  shows "\<exists>k \<in> set xs. arrayGet xs \<lfloor>u * real (length xs)\<rfloor> = Some k"
proof -
  have len: "0 < real (length xs)" using assms(1) by simp
  have "0 \<le> u * real (length xs)" using assms(2) by simp
  then have lo: "0 \<le> \<lfloor>u * real (length xs)\<rfloor>" by simp
  have "u * real (length xs) < 1 * real (length xs)"
    using assms(3) len by (intro mult_strict_right_mono)
  then have hi: "\<lfloor>u * real (length xs)\<rfloor> < int (length xs)"
    by (simp add: floor_less_iff)
  from lo hi have "nat \<lfloor>u * real (length xs)\<rfloor> < length xs" by linarith
  then have "xs ! nat \<lfloor>u * real (length xs)\<rfloor> \<in> set xs" by (rule nth_mem)
  with lo hi show ?thesis by (simp add: arrayGet_def)
qed

section \<open>The gesture classifier\<close>

lemma hypot_euclid: "hypot (px p - px q) (py p - py q) = euclid p q"
  by (simp add: hypot_def euclid_def)

lemma gestureRequest_full:
  assumes "21 \<le> length lm"
  shows "gestureRequest lm =
     Inr (if pinchDistance lm < 0.05 then Some ''FOCUS''
          else if openness lm < 0.25 then Some ''TREE''
          else if openness lm > 0.4 then Some ''SCATTER''
          else None)"
  using assms
  by (simp add: gestureRequest_def Let_def hypot_euclid pinchDistance_def openness_def)

lemma euclid_vertical: "px p = px q \<Longrightarrow> euclid p q = \<bar>py p - py q\<bar>"
  by (simp add: euclid_def)

lemma fistFrame_measures: "length fistFrame = 21" "pinchDistance fistFrame = 1 / 5" "openness fistFrame = 1 / 5"
  by (simp_all add: fistFrame_def pinchDistance_def openness_def euclid_vertical)

section \<open>Adding a photo\<close>

lemma forEach_scatter_draws:
  "snd (forEach (\<lambda>i p. setScatterTarget p) k ps g) n = g (n + 3 * length ps)"
proof (induction ps arbitrary: k g)
  case Nil
  show ?case by simp
next
  case (Cons p ps)
  have "snd (forEach (\<lambda>i p. setScatterTarget p) k (p # ps) g) n
        = snd (setScatterTarget p g) (n + 3 * length ps)"
    by (simp add: split_beta Let_def Cons.IH)
  also have "\<dots> = g (n + 3 * length ps + 3)"
    by (rule setScatterTarget_draws)
  also have "n + 3 * length ps + 3 = n + 3 * length (p # ps)"
    by simp
  finally show ?case .
qed

lemma initialWorld_halfDraws: "draws (initialWorld halfDraws) n = 1 / 2"
proof -
  obtain k where "\<forall>n. draws (initialWorld halfDraws) n = halfDraws (n + k)"
    using initialWorld_draws by blast
  then show ?thesis by (simp add: halfDraws_def)
qed

lemma scatterWorld_mode: "mode scatterWorld = ''SCATTER''"
  by (simp add: scatterWorld_def updateMode_SCATTER initialWorld_mode)

lemma scatterWorld_draws: "draws scatterWorld n = 1 / 2"
  by (simp add: scatterWorld_def updateMode_SCATTER initialWorld_mode forEach_scatter_draws
      initialWorld_halfDraws)

lemma openFrame_measures:
  "length openFrame = 21" "pinchDistance openFrame = 9 / 20" "openness openFrame = 9 / 20"
  "openFrame ! 9 = \<lparr>px = 1 / 2, py = 1 / 2\<rparr>"
  by (simp_all add: openFrame_def pinchDistance_def openness_def euclid_vertical)

lemma scatterWorld_reachable: "reachable scatterWorld"
proof -
  have r: "reachable (startClicked (initialWorld halfDraws))"
    by (intro reachable.start reachable.constructed)
  have s: "startClicked (initialWorld halfDraws) = (initialWorld halfDraws)\<lparr>isEnabled := True\<rparr>"
    by (simp add: startClicked_def updateMode_same initialWorld_mode)
  have g: "gestureRequest openFrame = Inr (Some ''SCATTER'')"
    by (simp add: gestureRequest_full openFrame_measures)
  have h: "handData (initialWorld halfDraws) = \<lparr>detected = False, centerX = 0.5, centerY = 0.5\<rparr>"
    and t: "lastVideoTime (initialWorld halfDraws) = - 1"
    by (simp_all add: initialWorld_def split_beta)
  have "predictWebcam 0 (Some \<lparr>landmarks = Some [openFrame]\<rparr>)
          (startClicked (initialWorld halfDraws)) = Inr scatterWorld"
    by (simp add: s predictWebcam_def processGestures_def Let_def g openFrame_measures h t
        scatterWorld_def)
  with r show ?thesis by (rule reachable.webcam)
qed

lemma newParticle_position:
  "position (mesh (fst (newParticle m ty g))) = targetPos (fst (newParticle m ty g))"
  by (simp add: newParticle_def Let_def split_beta)

lemma setScatterTarget_targetRot: "targetRot (fst (setScatterTarget p g)) = targetRot p"
  by (simp add: setScatterTarget_def Let_def split_beta)

lemma newParticle_length:
  assumes "0 \<le> g 3"
  shows "vlength (targetPos (fst (newParticle m ty g))) = 8 + g 3 * 12"
proof -
  let ?g3 = "snd (random (snd (random (snd (random g)))))"
  have "0 \<le> ?g3 0" using assms by (simp add: random_def eval_nat_numeral)
  then have "vlength (targetPos (fst (setScatterTarget p ?g3))) = 8 + ?g3 0 * 12" for p
    by (rule setScatterTarget_length)
  then show ?thesis
    by (simp add: newParticle_def Let_def split_beta) (simp add: random_def eval_nat_numeral)
qed

lemma setTreeTarget_mesh: "mesh (fst (setTreeTarget i tot p g)) = mesh p"
  by (simp add: setTreeTarget_def Let_def split_beta)

lemma addPhotoToScene_last:
  "particles (addPhotoToScene w) = particles w @
     [fst (setTreeTarget (of_int \<lfloor>draws w 6 * real particleCount\<rfloor>) (real particleCount)
            (fst (newParticle newMesh ''PHOTO'' (draws w)))
            (snd (random (snd (newParticle newMesh ''PHOTO'' (draws w))))))]"
  by (simp add: addPhotoToScene_def Let_def split_beta)
     (simp add: random_def newParticle_draws)

lemma cos_25_pi: "cos (25 * pi) = - 1"
  using cos_npi [of 25] by simp

lemma sin_25_pi: "sin (25 * pi) = 0"
  using sin_npi [of 25] by simp

lemma photosOf_snoc_eq:
  "type p = ''PHOTO'' \<Longrightarrow> photosOf (ps @ [p]) = photosOf ps @ [length ps]"
proof -
  assume p: "type p = ''PHOTO''"
  have "filter (\<lambda>i. type ((ps @ [p]) ! i) = ''PHOTO'') [0..<length ps]
      = filter (\<lambda>i. type (ps ! i) = ''PHOTO'') [0..<length ps]"
    by (intro filter_cong) (simp_all add: nth_append)
  with p show ?thesis by (simp add: photosOf_def)
qed

lemma onePhotoWorld_facts:
  "mode onePhotoWorld = ''TREE''"
  "photosOf (particles onePhotoWorld) = [1500]"
  "draws onePhotoWorld n = 1 / 2"
  "length (particles onePhotoWorld) = 1501"
proof -
  show "mode onePhotoWorld = ''TREE''"
    by (simp add: onePhotoWorld_def addPhotoToScene_def Let_def split_beta initialWorld_mode)
  show "photosOf (particles onePhotoWorld) = [1500]"
    by (simp add: onePhotoWorld_def addPhotoToScene_last photosOf_snoc_eq setTreeTarget_type
        newParticle_type initialWorld_photos initialWorld_length particleCount_def)
  show "draws onePhotoWorld n = 1 / 2"
    by (simp add: onePhotoWorld_def addPhotoToScene_def Let_def split_beta setTreeTarget_draws
        random_def newParticle_draws initialWorld_halfDraws)
  show "length (particles onePhotoWorld) = 1501"
    by (simp add: onePhotoWorld_def addPhotoToScene_last initialWorld_length particleCount_def)
qed

section \<open>Adding a photo (C1)\<close>

text \<open>
  Claim C1, as amended. When a photo is added, the constructor gives the new particle a
  scatter placement as its first target and puts its mesh there, so it is displayed at a
  distance between 8 and 20 from the origin and not at the origin. Then, whatever the
  global mode is, \<open>addPhotoToScene\<close> applies a tree target to that one particle, for the
  slot \<open>\<lfloor>u * 1500\<rfloor>\<close> of 1500 with \<open>u\<close> the next draw; the mode and the focus target are
  left as they were, and the other particles too.
\<close>

theorem added_photo_gets_tree_target:
  assumes "unitDraws (draws w)"
  shows "particles (addPhotoToScene w) = particles w @ [last (particles (addPhotoToScene w))] \<and>
         mode (addPhotoToScene w) = mode w \<and>
         focusTarget (addPhotoToScene w) = focusTarget w \<and>
         type (last (particles (addPhotoToScene w))) = ''PHOTO'' \<and>
         position (mesh (last (particles (addPhotoToScene w))))
           = targetPos (fst (newParticle newMesh ''PHOTO'' (draws w))) \<and>
         8 \<le> vlength (position (mesh (last (particles (addPhotoToScene w))))) \<and>
         vlength (position (mesh (last (particles (addPhotoToScene w))))) \<le> 20 \<and>
         last (particles (addPhotoToScene w))
           = fst (setTreeTarget (of_int \<lfloor>draws w 6 * real particleCount\<rfloor>) (real particleCount)
                   (fst (newParticle newMesh ''PHOTO'' (draws w)))
                   (snd (random (snd (newParticle newMesh ''PHOTO'' (draws w)))))) \<and>
         vy (targetPos (last (particles (addPhotoToScene w))))
           = 40 * (of_int \<lfloor>draws w 6 * real particleCount\<rfloor> / real particleCount) - 20"
proof -
  have g3: "0 \<le> draws w 3" "draws w 3 < 1"
    using assms by (simp_all add: unitDraws_def)
  have len: "vlength (targetPos (fst (newParticle newMesh ''PHOTO'' (draws w)))) = 8 + draws w 3 * 12"
    using g3(1) by (rule newParticle_length)
  have "8 \<le> 8 + draws w 3 * 12" and "8 + draws w 3 * 12 \<le> 20"
    using g3 by simp_all
  then have bounds:
    "8 \<le> vlength (targetPos (fst (newParticle newMesh ''PHOTO'' (draws w))))"
    "vlength (targetPos (fst (newParticle newMesh ''PHOTO'' (draws w)))) \<le> 20"
    by (simp_all only: len)
  have others: "mode (addPhotoToScene w) = mode w" "focusTarget (addPhotoToScene w) = focusTarget w"
    by (simp_all add: addPhotoToScene_def Let_def split_beta)
  show ?thesis
    using bounds others
    by (simp add: addPhotoToScene_last setTreeTarget_type newParticle_type setTreeTarget_mesh
        newParticle_position setTreeTarget_height)
qed

text \<open>
  The amended claim in the mode \<^verbatim>\<open>'SCATTER'\<close>, with every draw one half: the slot is 750
  of 1500, the target height 0.
\<close>

theorem added_photo_witness:
  "unitDraws (draws scatterWorld) \<and> mode scatterWorld = ''SCATTER'' \<and>
   mode (addPhotoToScene scatterWorld) = ''SCATTER'' \<and>
   vy (targetPos (last (particles (addPhotoToScene scatterWorld)))) = 0"
proof -
  have u: "unitDraws (draws scatterWorld)"
    by (simp add: unitDraws_def scatterWorld_draws)
  from added_photo_gets_tree_target [OF u]
  have "mode (addPhotoToScene scatterWorld) = mode scatterWorld"
    and "vy (targetPos (last (particles (addPhotoToScene scatterWorld))))
           = 40 * (of_int \<lfloor>draws scatterWorld 6 * real particleCount\<rfloor> / real particleCount) - 20"
    by blast+
  with u show ?thesis
    by (simp add: scatterWorld_mode scatterWorld_draws particleCount_def)
qed

text \<open>
  Claim C1 as stated fails. In the reachable state \<open>scatterWorld\<close> the mode is
  \<^verbatim>\<open>'SCATTER'\<close>, and every draw is one half. The scatter layout would leave the target
  rotation of the new particle at the constructor's \<open>(0, 0, 0)\<close> and put its target at a
  distance of at least 8 from the origin. The code gives it the tree target of slot 750:
  position \<open>(-7.5, 0, 0)\<close>, rotation \<open>(pi/2, pi/2, 0)\<close>, which is the target position of
  no scatter placement.
\<close>

theorem added_photo_counterexample:
  "reachable scatterWorld \<and> mode scatterWorld = ''SCATTER'' \<and>
   targetPos (last (particles (addPhotoToScene scatterWorld))) = \<lparr>vx = - 15 / 2, vy = 0, vz = 0\<rparr> \<and>
   targetRot (last (particles (addPhotoToScene scatterWorld))) = \<lparr>ex = pi / 2, ey = pi / 2, ez = 0\<rparr> \<and>
   \<not> (\<exists>p g. unitDraws g \<and>
          targetPos (last (particles (addPhotoToScene scatterWorld)))
            = targetPos (fst (setScatterTarget p g)))"
proof -
  have pos: "targetPos (last (particles (addPhotoToScene scatterWorld)))
               = \<lparr>vx = - 15 / 2, vy = 0, vz = 0\<rparr>"
    by (simp add: addPhotoToScene_last setTreeTarget_def Let_def split_beta random_def
        newParticle_draws scatterWorld_draws particleCount_def cos_25_pi sin_25_pi)
  have rot: "targetRot (last (particles (addPhotoToScene scatterWorld)))
               = \<lparr>ex = pi / 2, ey = pi / 2, ez = 0\<rparr>"
    by (simp add: addPhotoToScene_last setTreeTarget_def Let_def split_beta random_def
        newParticle_draws scatterWorld_draws)
  have short: "vlength (targetPos (last (particles (addPhotoToScene scatterWorld)))) = 15 / 2"
    by (simp add: pos vlength_def real_sqrt_divide power_divide)
  have far: "8 \<le> vlength (targetPos (fst (setScatterTarget p g)))" if "unitDraws g" for p g
  proof -
    have "0 \<le> g 0" using that by (simp add: unitDraws_def)
    then show ?thesis by (simp add: setScatterTarget_length)
  qed
  have "\<not> (\<exists>p g. unitDraws g \<and>
          targetPos (last (particles (addPhotoToScene scatterWorld)))
            = targetPos (fst (setScatterTarget p g)))"
  proof
    assume "\<exists>p g. unitDraws g \<and>
          targetPos (last (particles (addPhotoToScene scatterWorld)))
            = targetPos (fst (setScatterTarget p g))"
    then obtain p g where "unitDraws g"
      and "targetPos (last (particles (addPhotoToScene scatterWorld)))
            = targetPos (fst (setScatterTarget p g))"
      by blast
    with far [of g p] short show False by simp
  qed
  with pos rot show ?thesis
    by (simp add: scatterWorld_reachable scatterWorld_mode)
qed

section \<open>Focus without photos (C2)\<close>

text \<open>
  Claim C2. In every state the program reaches in which no particle is a photo,
  \<open>updateMode ''FOCUS''\<close> returns (the function is total) with the mode \<^verbatim>\<open>'TREE'\<close> and no
  focus target, and the tree layout applied: the particles are those the tree loop makes
  of the old ones, as many as before, particle \<open>i\<close> of \<open>n\<close> at height \<open>40 * (i / n) - 20\<close>.
\<close>

theorem focus_without_photos_falls_back:
  assumes "reachable w" and "photosOf (particles w) = []"
  shows "mode (updateMode ''FOCUS'' w) = ''TREE'' \<and>
         focusTarget (updateMode ''FOCUS'' w) = None \<and>
         particles (updateMode ''FOCUS'' w) =
           fst (forEach (\<lambda>i p. setTreeTarget (real i) (real (length (particles w))) p)
                  0 (particles w) (draws w)) \<and>
         length (particles (updateMode ''FOCUS'' w)) = length (particles w) \<and>
         (\<forall>i < length (particles w).
            vy (targetPos (particles (updateMode ''FOCUS'' w) ! i))
              = 40 * (real i / real (length (particles w))) - 20)"
proof -
  have "photoInvariant w" using assms(1) by (rule reachable_invariant)
  with assms(2) have ft: "focusTarget w = None" and m: "mode w \<noteq> ''FOCUS''"
    by (simp_all add: photoInvariant_def)
  note eq = updateMode_fallback [OF m assms(2)]
  have heights: "vy (targetPos (fst (forEach
            (\<lambda>i p. setTreeTarget (real i) (real (length (particles w))) p)
            0 (particles w) (draws w)) ! i))
          = 40 * (real i / real (length (particles w))) - 20"
    if "i < length (particles w)" for i
  proof -
    have "\<exists>h. True \<and> fst (forEach
            (\<lambda>i p. setTreeTarget (real i) (real (length (particles w))) p)
            0 (particles w) (draws w)) ! i
          = fst (setTreeTarget (real (0 + i)) (real (length (particles w))) (particles w ! i) h)"
      using that by (intro forEach_nth [where P = "\<lambda>g. True"]) simp_all
    then show ?thesis by (auto simp: setTreeTarget_height)
  qed
  show ?thesis
    using ft heights by (simp add: eq forEach_length)
qed

text \<open>The initial state is such a state: it has 1500 ornaments and no photo.\<close>

theorem focus_without_photos_witness:
  "reachable (initialWorld halfDraws) \<and> photosOf (particles (initialWorld halfDraws)) = [] \<and>
   mode (updateMode ''FOCUS'' (initialWorld halfDraws)) = ''TREE'' \<and>
   focusTarget (updateMode ''FOCUS'' (initialWorld halfDraws)) = None \<and>
   length (particles (updateMode ''FOCUS'' (initialWorld halfDraws))) = 1500"
  using focus_without_photos_falls_back [OF reachable.constructed initialWorld_photos, of halfDraws]
  by (simp add: reachable.constructed initialWorld_photos initialWorld_length particleCount_def
      forEach_length)

section \<open>Unknown modes (C3)\<close>

text \<open>
  Claim C3, as amended. \<open>updateMode\<close> does not validate its argument: a mode outside
  \<^verbatim>\<open>'TREE'\<close>, \<^verbatim>\<open>'SCATTER'\<close>, \<^verbatim>\<open>'FOCUS'\<close> is stored as the mode, and nothing else changes
  (no target of any particle, not the focus target, no draw is consumed).
\<close>

theorem unknown_mode_is_stored:
  assumes "md \<noteq> ''TREE''" and "md \<noteq> ''SCATTER''" and "md \<noteq> ''FOCUS''"
  shows "updateMode md w = w\<lparr>mode := md\<rparr> \<and>
         mode (updateMode md w) = md \<and>
         particles (updateMode md w) = particles w \<and>
         focusTarget (updateMode md w) = focusTarget w \<and>
         draws (updateMode md w) = draws w"
  using assms by (simp add: updateMode_other)

text \<open>The amended claim at the mode \<^verbatim>\<open>'DANCE'\<close> in the initial state.\<close>

theorem unknown_mode_witness:
  "''DANCE'' \<noteq> ''TREE'' \<and> ''DANCE'' \<noteq> ''SCATTER'' \<and> ''DANCE'' \<noteq> ''FOCUS'' \<and>
   updateMode ''DANCE'' (initialWorld halfDraws) = (initialWorld halfDraws)\<lparr>mode := ''DANCE''\<rparr>"
  using unknown_mode_is_stored [of "''DANCE''" "initialWorld halfDraws"] by simp

text \<open>
  Claim C3 as stated fails: in the initial state, whose mode is \<^verbatim>\<open>'TREE'\<close>, the call
  \<^verbatim>\<open>updateMode('DANCE')\<close> changes the stored mode to \<^verbatim>\<open>'DANCE'\<close>.
\<close>

theorem unknown_mode_counterexample:
  "''DANCE'' \<noteq> ''TREE'' \<and> ''DANCE'' \<noteq> ''SCATTER'' \<and> ''DANCE'' \<noteq> ''FOCUS'' \<and>
   reachable (initialWorld halfDraws) \<and>
   mode (initialWorld halfDraws) = ''TREE'' \<and>
   mode (updateMode ''DANCE'' (initialWorld halfDraws)) = ''DANCE'' \<and>
   mode (updateMode ''DANCE'' (initialWorld halfDraws)) \<noteq> mode (initialWorld halfDraws)"
  by (simp add: updateMode_other initialWorld_mode reachable.constructed)

section \<open>The same mode twice (C4)\<close>




section \<open>Convergence of the easing (C5)\<close>

text \<open>
  Claim C5. With the target position fixed, \<open>K\<close> calls of \<open>update\<close> (whatever the global
  mode is at each call: \<open>ms\<close> lists the modes, \<open>K = length ms\<close>) bring the displayed
  position within \<open>0.95 ^ K\<close> times the initial distance of the target, and never
  farther from it than it was at first; the target itself stays where it was.
\<close>

theorem update_converges:
  "distanceTo (position (mesh (fold update ms p))) (targetPos p)
     \<le> 0.95 ^ length ms * distanceTo (position (mesh p)) (targetPos p) \<and>
   distanceTo (position (mesh (fold update ms p))) (targetPos p)
     \<le> distanceTo (position (mesh p)) (targetPos p) \<and>
   targetPos (fold update ms p) = targetPos p"
proof -
  have "(0.95::real) ^ length ms \<le> 1"
    by (rule power_le_one) simp_all
  then have "0.95 ^ length ms * distanceTo (position (mesh p)) (targetPos p)
        \<le> 1 * distanceTo (position (mesh p)) (targetPos p)"
    by (rule mult_right_mono) (rule distanceTo_nonneg)
  then show ?thesis
    by (simp add: fold_update_distance fold_update_targetPos)
qed

section \<open>The gesture classifier (C6)\<close>

text \<open>
  Claim C6. For a frame of (at least) 21 landmarks, the classifier asks for \<^verbatim>\<open>'FOCUS'\<close>
  exactly when the distance between thumb tip and index tip is below 0.05, without
  looking at the other tests; otherwise the mean distance of the four fingertips to the
  wrist decides: below 0.25 \<^verbatim>\<open>'TREE'\<close>, above 0.4 \<^verbatim>\<open>'SCATTER'\<close>, in between nothing. So
  a pinch distance of 0.04 asks for \<^verbatim>\<open>'FOCUS'\<close> and one of 0.06 does not; an openness of
  0.20 asks for \<^verbatim>\<open>'TREE'\<close>, 0.30 for nothing, 0.45 for \<^verbatim>\<open>'SCATTER'\<close>. What the classifier
  asks for is what \<open>processGestures\<close> calls \<open>updateMode\<close> with, after it has recorded the
  hand; it calls nothing when the classifier asks for nothing.
\<close>

theorem gesture_classification:
  assumes "21 \<le> length lm"
  shows "(gestureRequest lm = Inr (Some ''FOCUS'') \<longleftrightarrow> pinchDistance lm < 0.05) \<and>
         gestureRequest lm =
           Inr (if pinchDistance lm < 0.05 then Some ''FOCUS''
                else if openness lm < 0.25 then Some ''TREE''
                else if openness lm > 0.4 then Some ''SCATTER''
                else None) \<and>
         (pinchDistance lm = 0.04 \<longrightarrow> gestureRequest lm = Inr (Some ''FOCUS'')) \<and>
         (pinchDistance lm = 0.06 \<longrightarrow> gestureRequest lm \<noteq> Inr (Some ''FOCUS'')) \<and>
         (\<not> pinchDistance lm < 0.05 \<and> openness lm = 0.20 \<longrightarrow> gestureRequest lm = Inr (Some ''TREE'')) \<and>
         (\<not> pinchDistance lm < 0.05 \<and> openness lm = 0.30 \<longrightarrow> gestureRequest lm = Inr None) \<and>
         (\<not> pinchDistance lm < 0.05 \<and> openness lm = 0.45 \<longrightarrow> gestureRequest lm = Inr (Some ''SCATTER'')) \<and>
         processGestures \<lparr>landmarks = Some (lm # rest)\<rparr> w =
           Inr (case gestureRequest lm of
                  Inr (Some md) \<Rightarrow>
                    updateMode md (w\<lparr>handData := (handData w)\<lparr>detected := True,
                                     centerX := 1 - px (lm ! 9), centerY := py (lm ! 9)\<rparr>\<rparr>)
                | _ \<Rightarrow> w\<lparr>handData := (handData w)\<lparr>detected := True,
                          centerX := 1 - px (lm ! 9), centerY := py (lm ! 9)\<rparr>\<rparr>)"
proof -
  note full = gestureRequest_full [OF assms]
  have a: "gestureRequest lm = Inr (Some ''FOCUS'') \<longleftrightarrow> pinchDistance lm < 0.05"
    by (simp add: full)
  have b: "pinchDistance lm = 0.04 \<longrightarrow> gestureRequest lm = Inr (Some ''FOCUS'')"
    by (simp add: full)
  have c: "pinchDistance lm = 0.06 \<longrightarrow> gestureRequest lm \<noteq> Inr (Some ''FOCUS'')"
    by (simp add: full)
  have d: "\<not> pinchDistance lm < 0.05 \<and> openness lm = 0.20 \<longrightarrow> gestureRequest lm = Inr (Some ''TREE'')"
    by (simp add: full)
  have e: "\<not> pinchDistance lm < 0.05 \<and> openness lm = 0.30 \<longrightarrow> gestureRequest lm = Inr None"
    by (simp add: full)
  have f: "\<not> pinchDistance lm < 0.05 \<and> openness lm = 0.45 \<longrightarrow> gestureRequest lm = Inr (Some ''SCATTER'')"
    by (simp add: full)
  have g: "processGestures \<lparr>landmarks = Some (lm # rest)\<rparr> w =
           Inr (case gestureRequest lm of
                  Inr (Some md) \<Rightarrow>
                    updateMode md (w\<lparr>handData := (handData w)\<lparr>detected := True,
                                     centerX := 1 - px (lm ! 9), centerY := py (lm ! 9)\<rparr>\<rparr>)
                | _ \<Rightarrow> w\<lparr>handData := (handData w)\<lparr>detected := True,
                          centerX := 1 - px (lm ! 9), centerY := py (lm ! 9)\<rparr>\<rparr>)"
    using assms by (simp add: processGestures_def Let_def full)
  from a full b c d e f g show ?thesis by blast
qed

text \<open>Claim C6 at a fist (openness 0.2) and at a pinch (distance 0).\<close>

theorem gesture_classification_witness:
  "21 \<le> length fistFrame \<and> pinchDistance fistFrame = 1 / 5 \<and> openness fistFrame = 1 / 5 \<and>
   gestureRequest fistFrame = Inr (Some ''TREE'') \<and>
   21 \<le> length pinchFrame \<and> pinchDistance pinchFrame = 0 \<and>
   gestureRequest pinchFrame = Inr (Some ''FOCUS'')"
proof -
  have "21 \<le> length fistFrame" by (simp add: fistFrame_measures)
  from gesture_classification [OF this]
  have fist: "gestureRequest fistFrame = Inr (Some ''TREE'')"
    by (simp add: fistFrame_measures)
  have p: "21 \<le> length pinchFrame" "pinchDistance pinchFrame = 0"
    by (simp_all add: pinchFrame_def pinchDistance_def euclid_def)
  from gesture_classification [OF p(1)]
  have "gestureRequest pinchFrame = Inr (Some ''FOCUS'')"
    by (simp add: p(2))
  with fist p show ?thesis by (simp add: fistFrame_measures)
qed

section \<open>Disabled gesture input (C7)\<close>

text \<open>
  Claim C7. While gesture input is disabled, \<open>predictWebcam\<close> returns before it looks at
  the frame: whatever the frame and the state, the run ends normally in the state it
  started from with \<open>detected\<close> set to false. The mode, the particles and their targets,
  the focus target and the random source (everything \<open>updateMode\<close> writes) are as before.
\<close>

theorem disabled_leaves_mode:
  assumes "\<not> isEnabled w"
  shows "predictWebcam t d w = Inr (w\<lparr>handData := (handData w)\<lparr>detected := False\<rparr>\<rparr>)"
  using assms by (simp add: predictWebcam_def)

text \<open>
  Claim C7 at the initial state (gesture input is disabled there) and a frame that shows
  a pinch.
\<close>

theorem disabled_leaves_mode_witness:
  "\<not> isEnabled (initialWorld halfDraws) \<and>
   predictWebcam 0 (Some \<lparr>landmarks = Some [pinchFrame]\<rparr>) (initialWorld halfDraws)
     = Inr ((initialWorld halfDraws)\<lparr>handData := (handData (initialWorld halfDraws))\<lparr>detected := False\<rparr>\<rparr>)"
  using disabled_leaves_mode [OF initialWorld_isEnabled, of 0 "Some \<lparr>landmarks = Some [pinchFrame]\<rparr>" halfDraws]
  by (simp add: initialWorld_isEnabled)

section \<open>Heights in the tree layout (C8)\<close>

text \<open>
  Claim C8. For every total \<open>N > 0\<close> and index \<open>i < N\<close>, the tree target of object \<open>i\<close>
  has height exactly \<open>40 * (i / N) - 20\<close>, between \<open>-20\<close> and \<open>20\<close>; an object of a
  later index \<open>j\<close> is at least as high, whatever the particles and the draws; and the
  draws, being in the unit interval, move only the x and z components, by at most 0.5,
  off the helix.
\<close>

theorem tree_height:
  assumes "0 < N" and "i < N" and "i \<le> j" and "j < N" and "unitDraws g"
  shows "vy (targetPos (fst (setTreeTarget (real i) (real N) p g))) = 40 * (real i / real N) - 20 \<and>
         - 20 \<le> vy (targetPos (fst (setTreeTarget (real i) (real N) p g))) \<and>
         vy (targetPos (fst (setTreeTarget (real i) (real N) p g))) \<le> 20 \<and>
         vy (targetPos (fst (setTreeTarget (real i) (real N) p g)))
           \<le> vy (targetPos (fst (setTreeTarget (real j) (real N) q h))) \<and>
         \<bar>vx (targetPos (fst (setTreeTarget (real i) (real N) p g)))
            - cos (real i / real N * 50 * pi) * (15 * (1 - real i / real N))\<bar> \<le> 0.5 \<and>
         \<bar>vz (targetPos (fst (setTreeTarget (real i) (real N) p g)))
            - sin (real i / real N * 50 * pi) * (15 * (1 - real i / real N))\<bar> \<le> 0.5"
proof -
  have t0: "0 \<le> real i / real N" by simp
  have t1: "real i / real N \<le> 1" using assms(1,2) by simp
  have mono: "real i / real N \<le> real j / real N"
    using assms(1,3) by (simp add: divide_right_mono)
  have g0: "0 \<le> g 0 \<and> g 0 < 1" and g1: "0 \<le> g 1 \<and> g 1 < 1"
    using assms(5) by (simp_all add: unitDraws_def)
  have jx: "\<bar>g 0 - 0.5\<bar> \<le> 0.5" using g0 by linarith
  have jz: "\<bar>g 1 - 0.5\<bar> \<le> 0.5" using g1 by linarith
  have lo: "- 20 \<le> 40 * (real i / real N) - 20" using t0 by simp
  have hi: "40 * (real i / real N) - 20 \<le> 20" using t1 by simp
  show ?thesis
    using lo hi mono jx jz
    by (simp only: setTreeTarget_height setTreeTarget_x setTreeTarget_z add_diff_cancel_left') simp
qed

theorem tree_height_witness:
  "(0::nat) < 4 \<and> (1::nat) < 4 \<and> (1::nat) \<le> 2 \<and> (2::nat) < 4 \<and> unitDraws halfDraws \<and>
   vy (targetPos (fst (setTreeTarget (real (1::nat)) (real (4::nat)) sampleOrnament halfDraws))) = - 10 \<and>
   vy (targetPos (fst (setTreeTarget (real (1::nat)) (real (4::nat)) sampleOrnament halfDraws)))
     \<le> vy (targetPos (fst (setTreeTarget (real (2::nat)) (real (4::nat)) sampleOrnament halfDraws)))"
  using tree_height [of 4 1 2 halfDraws sampleOrnament sampleOrnament halfDraws]
  by (simp add: unitDraws_def halfDraws_def)

section \<open>Targets in the focus layout (C9)\<close>

text \<open>
  Claim C9. Once a photo exists (one has been added) and \<open>updateMode ''FOCUS''\<close> enters
  the focus mode from another mode, with draws in the unit interval: a focus subject
  \<open>k\<close> is stored, it is a photo, its target position is \<open>(0, 2, 40)\<close>, its target rotation
  \<open>(0, 0, 0)\<close> and its target scale \<open>(3, 3, 3)\<close>; the target position of every other
  particle is that of a scatter placement from fresh draws, multiplied by 2, and its
  norm lies between 16 and 40.
\<close>

theorem focus_targets:
  assumes "mode w \<noteq> ''FOCUS''" and "photosOf (particles w) \<noteq> []" and "unitDraws (draws w)"
  shows "\<exists>k. focusTarget (updateMode ''FOCUS'' w) = Some k \<and>
           k < length (particles w) \<and> type (particles w ! k) = ''PHOTO'' \<and>
           mode (updateMode ''FOCUS'' w) = ''FOCUS'' \<and>
           length (particles (updateMode ''FOCUS'' w)) = length (particles w) \<and>
           targetPos (particles (updateMode ''FOCUS'' w) ! k) = \<lparr>vx = 0, vy = 2, vz = 40\<rparr> \<and>
           targetRot (particles (updateMode ''FOCUS'' w) ! k) = \<lparr>ex = 0, ey = 0, ez = 0\<rparr> \<and>
           targetScale (particles (updateMode ''FOCUS'' w) ! k) = \<lparr>vx = 3, vy = 3, vz = 3\<rparr> \<and>
           (\<forall>j < length (particles w). j \<noteq> k \<longrightarrow>
              (\<exists>h. unitDraws h \<and>
                 targetPos (particles (updateMode ''FOCUS'' w) ! j)
                   = multiplyScalar (targetPos (fst (setScatterTarget (particles w ! j) h))) 2) \<and>
              16 \<le> vlength (targetPos (particles (updateMode ''FOCUS'' w) ! j)) \<and>
              vlength (targetPos (particles (updateMode ''FOCUS'' w) ! j)) \<le> 40)"
proof -
  let ?ps = "particles w"
  let ?w = "updateMode ''FOCUS'' w"
  have u: "0 \<le> draws w 0" "draws w 0 < 1"
    using assms(3) by (simp_all add: unitDraws_def)
  obtain k where kin: "k \<in> set (photosOf ?ps)"
    and ft: "arrayGet (photosOf ?ps) \<lfloor>draws w 0 * real (length (photosOf ?ps))\<rfloor> = Some k"
    using arrayGet_random [OF assms(2) u] by blast
  have k: "k < length ?ps" "type (?ps ! k) = ''PHOTO''"
    using photosOf_member [OF kin] by simp_all
  let ?f = "\<lambda>i p. setFocusTarget (Some k = Some i) p"
  let ?g = "\<lambda>n. draws w (Suc n)"
  have eq: "?w = w\<lparr>mode := ''FOCUS'', focusTarget := Some k,
                    particles := fst (forEach ?f 0 ?ps ?g), draws := snd (forEach ?f 0 ?ps ?g)\<rparr>"
    by (simp add: updateMode_FOCUS_photos [OF assms(1,2)] Let_def ft)
  have g: "unitDraws ?g"
    using assms(3) by (simp add: unitDraws_def)
  have each: "\<exists>h. unitDraws h \<and> particles ?w ! j = fst (setFocusTarget (k = j) (?ps ! j) h)"
    if "j < length ?ps" for j
  proof -
    have "\<exists>h. unitDraws h \<and> fst (forEach ?f 0 ?ps ?g) ! j = fst (?f (0 + j) (?ps ! j) h)"
      using g that by (intro forEach_nth) (simp_all add: unitDraws_setFocusTarget)
    then show ?thesis by (simp add: eq)
  qed
  obtain h where "particles ?w ! k = fst (setFocusTarget True (?ps ! k) h)"
    using each [OF k(1)] by auto
  then have subject:
    "targetPos (particles ?w ! k) = \<lparr>vx = 0, vy = 2, vz = 40\<rparr>"
    "targetRot (particles ?w ! k) = \<lparr>ex = 0, ey = 0, ez = 0\<rparr>"
    "targetScale (particles ?w ! k) = \<lparr>vx = 3, vy = 3, vz = 3\<rparr>"
    by (simp_all add: setFocusTarget_subject)
  have others:
    "(\<exists>h. unitDraws h \<and>
        targetPos (particles ?w ! j)
          = multiplyScalar (targetPos (fst (setScatterTarget (?ps ! j) h))) 2) \<and>
     16 \<le> vlength (targetPos (particles ?w ! j)) \<and>
     vlength (targetPos (particles ?w ! j)) \<le> 40"
    if lt: "j < length ?ps" and ne: "j \<noteq> k" for j
  proof -
    obtain h where h: "unitDraws h" and "particles ?w ! j = fst (setFocusTarget (k = j) (?ps ! j) h)"
      using each [OF lt] by blast
    with ne have p: "particles ?w ! j = fst (setFocusTarget False (?ps ! j) h)"
      by simp
    show ?thesis
      using h setFocusTarget_other_length [OF h, of "?ps ! j"]
      by (auto simp: p setFocusTarget_other)
  qed
  have "focusTarget ?w = Some k" and "mode ?w = ''FOCUS''"
    and "length (particles ?w) = length ?ps"
    by (simp_all add: eq forEach_length)
  with k subject others show ?thesis by blast
qed

text \<open>
  Claim C9 end to end: one photo is added to the 1500 ornaments of the initial state
  (it is particle 1500), then \<^verbatim>\<open>updateMode('FOCUS')\<close>.
\<close>

theorem focus_targets_witness:
  "mode onePhotoWorld \<noteq> ''FOCUS'' \<and> photosOf (particles onePhotoWorld) \<noteq> [] \<and>
   unitDraws (draws onePhotoWorld) \<and>
   focusTarget (updateMode ''FOCUS'' onePhotoWorld) = Some 1500 \<and>
   targetPos (particles (updateMode ''FOCUS'' onePhotoWorld) ! 1500) = \<lparr>vx = 0, vy = 2, vz = 40\<rparr> \<and>
   targetScale (particles (updateMode ''FOCUS'' onePhotoWorld) ! 1500) = \<lparr>vx = 3, vy = 3, vz = 3\<rparr> \<and>
   16 \<le> vlength (targetPos (particles (updateMode ''FOCUS'' onePhotoWorld) ! 0)) \<and>
   vlength (targetPos (particles (updateMode ''FOCUS'' onePhotoWorld) ! 0)) \<le> 40"
proof -
  have m: "mode onePhotoWorld \<noteq> ''FOCUS''" and ph: "photosOf (particles onePhotoWorld) \<noteq> []"
    and u: "unitDraws (draws onePhotoWorld)"
    by (simp_all add: onePhotoWorld_facts unitDraws_def)
  have ft: "focusTarget (updateMode ''FOCUS'' onePhotoWorld) = Some 1500"
    by (simp add: updateMode_FOCUS_photos [OF m ph] Let_def onePhotoWorld_facts arrayGet_def)
  from focus_targets [OF m ph u] ft
  have "targetPos (particles (updateMode ''FOCUS'' onePhotoWorld) ! 1500) = \<lparr>vx = 0, vy = 2, vz = 40\<rparr>"
    and "targetScale (particles (updateMode ''FOCUS'' onePhotoWorld) ! 1500) = \<lparr>vx = 3, vy = 3, vz = 3\<rparr>"
    and "16 \<le> vlength (targetPos (particles (updateMode ''FOCUS'' onePhotoWorld) ! 0))"
    and "vlength (targetPos (particles (updateMode ''FOCUS'' onePhotoWorld) ! 0)) \<le> 40"
    by (auto simp: onePhotoWorld_facts)
  with m ph u ft show ?thesis by simp
qed

section \<open>What update leaves alone (C10)\<close>

text \<open>
  Claim C10. For every particle and every global mode, \<open>update\<close> leaves \<open>targetPos\<close>,
  \<open>targetRot\<close> and \<open>targetScale\<close> as they were (and, with them, the type, the base scale
  and the spin velocity): only the displayed transform of the mesh changes.
\<close>

theorem update_keeps_targets:
  "targetPos (update md p) = targetPos p \<and>
   targetRot (update md p) = targetRot p \<and>
   targetScale (update md p) = targetScale p \<and>
   type (update md p) = type p \<and>
   baseScale (update md p) = baseScale p \<and>
   velocity (update md p) = velocity p \<and>
   update md p = p\<lparr>mesh := mesh (update md p)\<rparr>"
  by (simp add: update_def Let_def)

end
